theory Spec2Isabelle
  imports Complex_Main "HOL-Library.Sublist" "HOL-Library.Extended_Nat"
begin

section \<open>JavaScript values\<close>

text \<open>
  The values that \<^verbatim>\<open>JSON.parse\<close> produces, and \<^verbatim>\<open>undefined\<close>, which a missing
  property reads as. A number is a rational: every finite IEEE double is one. An object is
  the list of its own properties in their order.
\<close>

datatype jsv =
    Undefined
  | Null
  | Bool bool
  | Num rat
  | Str string
  | Arr "jsv list"
  | Obj "(string \<times> jsv) list"

datatype js_error = SyntaxError string | TypeError

text \<open>The truth value of a JavaScript value in a condition (\<^verbatim>\<open>if (ts)\<close>).\<close>

fun truthy :: "jsv \<Rightarrow> bool" where
  "truthy Undefined = False"
| "truthy Null = False"
| "truthy (Bool b) = b"
| "truthy (Num n) = (n \<noteq> 0)"
| "truthy (Str s) = (s \<noteq> [])"
| "truthy (Arr xs) = True"
| "truthy (Obj kvs) = True"

text \<open>Reading the property \<^verbatim>\<open>k\<close> of an object: \<^verbatim>\<open>undefined\<close> when it has none.\<close>

definition get_prop :: "(string \<times> jsv) list \<Rightarrow> string \<Rightarrow> jsv" where
  "get_prop kvs k = (case map_of kvs k of None \<Rightarrow> Undefined | Some v \<Rightarrow> v)"

text \<open>
  \<^verbatim>\<open>const { op, d, ts } = data\<close>. Destructuring \<^verbatim>\<open>null\<close> or \<^verbatim>\<open>undefined\<close> throws a
  TypeError; a number, a boolean, a string or an array has none of the three properties.
\<close>

fun destructure :: "jsv \<Rightarrow> js_error + (jsv \<times> jsv \<times> jsv)" where
  "destructure Undefined = Inl TypeError"
| "destructure Null = Inl TypeError"
| "destructure (Obj kvs) = Inr (get_prop kvs ''op'', get_prop kvs ''d'', get_prop kvs ''ts'')"
| "destructure v = Inr (Undefined, Undefined, Undefined)"

text \<open>The decimal form of a natural number, as an array index or a status code prints.\<close>

fun string_of_nat :: "nat \<Rightarrow> string" where
  "string_of_nat n =
     (if n < 10 then [''0123456789'' ! n]
      else string_of_nat (n div 10) @ [''0123456789'' ! (n mod 10)])"

declare string_of_nat.simps [simp del]

text \<open>
  The own enumerable properties that the spread \<^verbatim>\<open>{ ...d }\<close> copies: those of an object,
  the indexed elements of an array, the indexed characters of a string, and nothing for
  \<^verbatim>\<open>undefined\<close>, \<^verbatim>\<open>null\<close>, a number or a boolean.
\<close>

fun spread :: "jsv \<Rightarrow> (string \<times> jsv) list" where
  "spread (Obj kvs) = kvs"
| "spread (Arr xs) = map (\<lambda>i. (string_of_nat i, xs ! i)) [0..<length xs]"
| "spread (Str s) = map (\<lambda>i. (string_of_nat i, Str [s ! i])) [0..<length s]"
| "spread v = []"

text \<open>Assigning a property: in place when the object has it, at the end otherwise.\<close>

fun set_prop :: "string \<Rightarrow> jsv \<Rightarrow> (string \<times> jsv) list \<Rightarrow> (string \<times> jsv) list" where
  "set_prop k v [] = [(k, v)]"
| "set_prop k v (p # ps) = (if fst p = k then (k, v) # ps else p # set_prop k v ps)"

text \<open>\<^verbatim>\<open>{ ...d, ts }\<close>: the payload merged with the marker field.\<close>

definition spread_ts :: "jsv \<Rightarrow> jsv \<Rightarrow> jsv" where
  "spread_ts d ts = Obj (set_prop ''ts'' ts (spread d))"

section \<open>Double-precision arithmetic\<close>

text \<open>
  A number of the delay computation is an IEEE 754 double: a finite value, an infinity or
  NaN (the sign of zero is not kept). An operation on finite values rounds its exact
  result with the rounding \<open>fl\<close> of the format, which gives an infinity on overflow; the
  other cases are those of the standard: NaN is contagious, zero times an infinity and
  the sum of opposite infinities are NaN.
\<close>

datatype double = Fin real | PosInf | NegInf | NaN

text \<open>The order of doubles; NaN compares with nothing.\<close>

fun dle :: "double \<Rightarrow> double \<Rightarrow> bool" where
  "dle NaN b = False"
| "dle a NaN = False"
| "dle NegInf b = True"
| "dle a PosInf = True"
| "dle (Fin x) (Fin y) = (x \<le> y)"
| "dle a b = False"

fun dsign :: "double \<Rightarrow> real" where
  "dsign (Fin x) = sgn x"
| "dsign PosInf = 1"
| "dsign NegInf = - 1"
| "dsign NaN = 0"

definition inf_of_sign :: "real \<Rightarrow> double" where
  "inf_of_sign s = (if 0 < s then PosInf else if s < 0 then NegInf else NaN)"

text \<open>The operators \<^verbatim>\<open>*\<close> and \<^verbatim>\<open>+\<close>, and \<^verbatim>\<open>Math.min\<close>.\<close>

fun dmul :: "(real \<Rightarrow> double) \<Rightarrow> double \<Rightarrow> double \<Rightarrow> double" where
  "dmul fl NaN b = NaN"
| "dmul fl a NaN = NaN"
| "dmul fl (Fin x) (Fin y) = fl (x * y)"
| "dmul fl a b = inf_of_sign (dsign a * dsign b)"

fun dadd :: "(real \<Rightarrow> double) \<Rightarrow> double \<Rightarrow> double \<Rightarrow> double" where
  "dadd fl NaN b = NaN"
| "dadd fl a NaN = NaN"
| "dadd fl (Fin x) (Fin y) = fl (x + y)"
| "dadd fl PosInf NegInf = NaN"
| "dadd fl NegInf PosInf = NaN"
| "dadd fl PosInf b = PosInf"
| "dadd fl a PosInf = PosInf"
| "dadd fl NegInf b = NegInf"
| "dadd fl a NegInf = NegInf"

fun dmin :: "double \<Rightarrow> double \<Rightarrow> double" where
  "dmin NaN b = NaN"
| "dmin a NaN = NaN"
| "dmin a b = (if dle a b then a else b)"

section \<open>The platform\<close>

text \<open>
  The functions of the JavaScript runtime that the library calls. They are parameters of
  the model: \<^verbatim>\<open>JSON.parse\<close> (\<open>Inl\<close> the message of the SyntaxError it throws),
  \<^verbatim>\<open>JSON.stringify\<close>, \<^verbatim>\<open>new Date(t).toISOString()\<close>, \<^verbatim>\<open>URLSearchParams.toString\<close>,
  \<^verbatim>\<open>String.localeCompare\<close> and \<^verbatim>\<open>String.trim\<close>; the rounding of double arithmetic; and
  \<^verbatim>\<open>Math.pow\<close>, whose precision the language leaves to the implementation, at a base and
  a natural exponent.
\<close>

record platform =
  JSON_parse :: "string \<Rightarrow> string + jsv"
  JSON_stringify :: "jsv \<Rightarrow> string"
  toISOString :: "nat \<Rightarrow> string"
  URLSearchParams_toString :: "(string \<times> string) list \<Rightarrow> string"
  localeCompare :: "string \<Rightarrow> string \<Rightarrow> int"
  String_trim :: "string \<Rightarrow> string"
  round_double :: "real \<Rightarrow> double"
  Math_pow :: "real \<Rightarrow> nat \<Rightarrow> double"

section \<open>AriwaClient\<close>

datatype ready_state = CONNECTING | OPEN | CLOSING | CLOSED

text \<open>
  A WebSocket object: its state, the headers it was opened with (the marker header holds
  the value that \<^verbatim>\<open>toString()\<close> is applied to), whether the listeners of \<^verbatim>\<open>_connect\<close>
  are registered on it, and whether the close listener of \<^verbatim>\<open>disconnect\<close> is.
\<close>

record WebSocket =
  readyState :: ready_state
  headers :: "(string \<times> jsv) list"
  connect_listeners :: bool
  disconnect_listener :: bool

text \<open>
  The fields of the class, and after them the runtime objects it owns: the sockets it has
  created (\<open>ws\<close> is an index into them) and the delays of the pending reconnection
  timers. \<open>maxReconnectAttempts\<close> defaults to \<^verbatim>\<open>Infinity\<close>. The attempt counter is
  a natural number, which a double holds exactly below \<open>2 ^ 53\<close>.
\<close>

record AriwaClient =
  wsToken :: string
  name :: string
  ws :: "nat option"
  lastMessageTimestamp :: jsv
  autoReconnect :: bool
  reconnectDelay :: double
  maxReconnectDelay :: double
  maxReconnectAttempts :: enat
  reconnectAttempts :: nat
  intentionalClose :: bool
  persistPath :: "string option"
  sockets :: "WebSocket list"
  timers :: "double list"

text \<open>
  What a handler does, in program order: the events it emits, the assignment to the
  marker, the call of \<^verbatim>\<open>saveTimestamp\<close>, and the error an async handler rejects with.
  \<^verbatim>\<open>emit\<close> is recorded; the listeners are outside the model.
\<close>

datatype action =
    Emit string "jsv list"
  | EmitError js_error
  | Assign_lastMessageTimestamp jsv
  | Call_saveTimestamp string jsv
  | Throw js_error

fun is_emit :: "action \<Rightarrow> bool" where
  "is_emit (Emit e args) = True"
| "is_emit (EmitError err) = True"
| "is_emit a = False"

definition emitted :: "action list \<Rightarrow> action list" where
  "emitted acts = filter is_emit acts"

text \<open>The \<^verbatim>\<open>switch (op)\<close> of \<^verbatim>\<open>handleMessage\<close>; the cases compare with \<^verbatim>\<open>===\<close>.\<close>

definition dispatch :: "jsv \<Rightarrow> jsv \<Rightarrow> jsv \<Rightarrow> action" where
  "dispatch op d ts =
     (if op = Num 3 then Emit ''ready'' [d]
      else if op = Num 10 then Emit ''vote'' [spread_ts d ts]
      else if op = Num 11 then Emit ''test'' [spread_ts d ts]
      else if op = Num 12 then Emit ''reminder'' [spread_ts d ts]
      else Emit ''unknownOp'' [op, d])"

text \<open>
  \<^verbatim>\<open>handleMessage(raw)\<close>: the actions in program order and the client afterwards. The
  destructuring is outside the \<^verbatim>\<open>try\<close>, so its TypeError rejects the handler's promise.
\<close>

definition handleMessage :: "platform \<Rightarrow> string \<Rightarrow> AriwaClient \<Rightarrow> action list \<times> AriwaClient" where
  "handleMessage P raw c =
     (case JSON_parse P raw of
        Inl m \<Rightarrow> ([EmitError (SyntaxError m)], c)
      | Inr data \<Rightarrow>
          (case destructure data of
             Inl err \<Rightarrow> ([Throw err], c)
           | Inr (op, d, ts) \<Rightarrow>
               if truthy ts then
                 ([dispatch op d ts, Assign_lastMessageTimestamp ts] @
                    (case persistPath c of
                       None \<Rightarrow> []
                     | Some p \<Rightarrow> if p \<noteq> [] then [Call_saveTimestamp p ts] else []),
                  c\<lparr>lastMessageTimestamp := ts\<rparr>)
               else ([dispatch op d ts], c)))"

text \<open>The frames of one session, handled in the order received.\<close>

fun handleMessages :: "platform \<Rightarrow> string list \<Rightarrow> AriwaClient \<Rightarrow> action list \<times> AriwaClient" where
  "handleMessages P [] c = ([], c)"
| "handleMessages P (raw # raws) c =
     (let (acts, c1) = handleMessage P raw c;
          (acts', c2) = handleMessages P raws c1
      in (acts @ acts', c2))"

subsection \<open>Connection lifecycle\<close>

text \<open>The constructor's options; \<open>None\<close> is an option left out.\<close>

record AriwaClientOptions =
  opt_topgg :: "string option"
  opt_ws :: string
  opt_name :: string
  opt_cache :: "nat option"
  opt_autoReconnect :: "bool option"
  opt_initialDelay :: "double option"
  opt_maxDelay :: "double option"
  opt_maxAttempts :: "enat option"
  opt_persistPath :: "string option"

definition AriwaClient_new :: "AriwaClientOptions \<Rightarrow> AriwaClient" where
  "AriwaClient_new options =
     \<lparr>wsToken = opt_ws options,
      name = opt_name options,
      ws = None,
      lastMessageTimestamp = Undefined,
      autoReconnect = (case opt_autoReconnect options of None \<Rightarrow> True | Some b \<Rightarrow> b),
      reconnectDelay = (case opt_initialDelay options of None \<Rightarrow> Fin 1000 | Some x \<Rightarrow> x),
      maxReconnectDelay = (case opt_maxDelay options of None \<Rightarrow> Fin 30000 | Some x \<Rightarrow> x),
      maxReconnectAttempts = (case opt_maxAttempts options of None \<Rightarrow> \<infinity> | Some n \<Rightarrow> n),
      reconnectAttempts = 0,
      intentionalClose = False,
      persistPath = opt_persistPath options,
      sockets = [],
      timers = []\<rparr>"

text \<open>
  \<^verbatim>\<open>_connect()\<close>: a new WebSocket with the handshake headers and the four listeners
  becomes \<^verbatim>\<open>this.ws\<close>.
\<close>

definition priv_connect :: "AriwaClient \<Rightarrow> AriwaClient" where
  "priv_connect c =
     (let hs = [(''Authorization'', Str (wsToken c)), (''name'', Str (name c))] @
               (if truthy (lastMessageTimestamp c)
                then [(''lastMessageTimestamp'', lastMessageTimestamp c)] else []);
          sock = \<lparr>readyState = CONNECTING, headers = hs,
                  connect_listeners = True, disconnect_listener = False\<rparr>
      in c\<lparr>sockets := sockets c @ [sock], ws := Some (length (sockets c))\<rparr>)"

text \<open>
  \<^verbatim>\<open>connect(lastMessageTimestamp?)\<close>. \<open>loaded\<close> is what \<^verbatim>\<open>loadTimestamp\<close> returns when
  it is called (\<^verbatim>\<open>undefined\<close> on any failure).
\<close>

definition connect :: "jsv \<Rightarrow> jsv \<Rightarrow> AriwaClient \<Rightarrow> AriwaClient" where
  "connect override loaded c =
     priv_connect
       (c\<lparr>lastMessageTimestamp :=
            (if override \<noteq> Undefined \<and> override \<noteq> Null then override
             else (case persistPath c of
                     None \<Rightarrow> Undefined
                   | Some p \<Rightarrow> if p \<noteq> [] then loaded else Undefined)),
          intentionalClose := False,
          reconnectAttempts := 0\<rparr>)"

text \<open>
  \<^verbatim>\<open>reconnect()\<close>, with \<open>r\<close> the value of \<^verbatim>\<open>Math.random()\<close>: the counter is incremented,
  the delay is computed from the new counter in double arithmetic, and a timer with that
  delay is set.
\<close>

definition reconnect :: "platform \<Rightarrow> real \<Rightarrow> AriwaClient \<Rightarrow> AriwaClient" where
  "reconnect P r c =
     (let c1 = c\<lparr>reconnectAttempts := reconnectAttempts c + 1\<rparr>;
          fl = round_double P;
          delay = dadd fl
                    (dmin (dmul fl (reconnectDelay c1)
                                   (Math_pow P (3 / 2) (reconnectAttempts c1 - 1)))
                          (maxReconnectDelay c1))
                    (dmul fl (Fin r) (Fin 1000))
      in c1\<lparr>timers := timers c1 @ [delay]\<rparr>)"

text \<open>The listeners that \<^verbatim>\<open>_connect\<close> registers for \<^verbatim>\<open>open\<close> and \<^verbatim>\<open>close\<close>.\<close>

definition ws_on_open :: "AriwaClient \<Rightarrow> action list \<times> AriwaClient" where
  "ws_on_open c = ([Emit ''open'' []], c\<lparr>reconnectAttempts := 0\<rparr>)"

definition ws_on_close ::
  "platform \<Rightarrow> int \<Rightarrow> string \<Rightarrow> real \<Rightarrow> AriwaClient \<Rightarrow> action list \<times> AriwaClient" where
  "ws_on_close P code reason r c =
     ([Emit ''disconnected'' [Num (of_int code), Str reason]],
      if \<not> intentionalClose c \<and> autoReconnect c \<and> code \<noteq> 1000
         \<and> enat (reconnectAttempts c) < maxReconnectAttempts c
      then reconnect P r c else c)"

text \<open>
  \<^verbatim>\<open>disconnect()\<close>. Without an open socket it only forgets the handle. Otherwise it sets
  the flag, registers its close listener and calls \<^verbatim>\<open>close(1000)\<close>, which puts the
  socket into the closing state. The returned promise and its five-second timer are not
  part of the model. \<open>ws\<close> always holds the index of a socket that was created.
\<close>

definition disconnect :: "AriwaClient \<Rightarrow> AriwaClient" where
  "disconnect c =
     (case ws c of
        None \<Rightarrow> c\<lparr>ws := None\<rparr>
      | Some i \<Rightarrow>
          if readyState (sockets c ! i) \<noteq> OPEN then c\<lparr>ws := None\<rparr>
          else c\<lparr>intentionalClose := True,
                 sockets := (sockets c)[i := (sockets c ! i)
                    \<lparr>readyState := CLOSING, disconnect_listener := True\<rparr>]\<rparr>)"

text \<open>\<^verbatim>\<open>terminate()\<close> of a socket that is not closed yet starts closing it.\<close>

definition terminate :: "WebSocket \<Rightarrow> WebSocket" where
  "terminate sock = (if readyState sock = CLOSED then sock else sock\<lparr>readyState := CLOSING\<rparr>)"

text \<open>The close listener that \<^verbatim>\<open>disconnect\<close> registers; it acts on the current \<^verbatim>\<open>this.ws\<close>.\<close>

definition disconnect_on_close :: "AriwaClient \<Rightarrow> AriwaClient" where
  "disconnect_on_close c =
     (case ws c of
        None \<Rightarrow> c\<lparr>ws := None\<rparr>
      | Some j \<Rightarrow>
          c\<lparr>sockets := (sockets c)[j := terminate ((sockets c ! j)
                \<lparr>connect_listeners := False, disconnect_listener := False\<rparr>)],
            ws := None\<rparr>)"

text \<open>
  What happens to a client: calls of its methods, events of its sockets, and a pending
  timer firing. A socket event runs the listeners registered on that socket, those of
  \<^verbatim>\<open>_connect\<close> first. The close event carries the value \<^verbatim>\<open>Math.random()\<close> will return.
\<close>

datatype event =
    Call_connect jsv jsv
  | Call_disconnect
  | Socket_open nat
  | Socket_message nat string
  | Socket_close nat int string real
  | Timer_fires nat

fun step :: "platform \<Rightarrow> event \<Rightarrow> AriwaClient \<Rightarrow> action list \<times> AriwaClient" where
  "step P (Call_connect override loaded) c = ([], connect override loaded c)"
| "step P Call_disconnect c = ([], disconnect c)"
| "step P (Socket_open i) c =
     (if i < length (sockets c) \<and> readyState (sockets c ! i) = CONNECTING then
        (let c1 = c\<lparr>sockets := (sockets c)[i := (sockets c ! i)\<lparr>readyState := OPEN\<rparr>]\<rparr>
         in if connect_listeners (sockets c ! i) then ws_on_open c1 else ([], c1))
      else ([], c))"
| "step P (Socket_message i raw) c =
     (if i < length (sockets c) \<and> readyState (sockets c ! i) \<in> {OPEN, CLOSING}
         \<and> connect_listeners (sockets c ! i)
      then handleMessage P raw c else ([], c))"
| "step P (Socket_close i code reason r) c =
     (if i < length (sockets c) \<and> readyState (sockets c ! i) \<noteq> CLOSED then
        (let sock = sockets c ! i;
             c1 = c\<lparr>sockets := (sockets c)[i := sock\<lparr>readyState := CLOSED\<rparr>]\<rparr>;
             (acts, c2) = (if connect_listeners sock then ws_on_close P code reason r c1
                           else ([], c1))
         in (acts, if disconnect_listener sock then disconnect_on_close c2 else c2))
      else ([], c))"
| "step P (Timer_fires k) c =
     (if k < length (timers c)
      then ([], priv_connect (c\<lparr>timers := take k (timers c) @ drop (Suc k) (timers c)\<rparr>))
      else ([], c))"

fun run :: "platform \<Rightarrow> event list \<Rightarrow> AriwaClient \<Rightarrow> action list \<times> AriwaClient" where
  "run P [] c = ([], c)"
| "run P (ev # evs) c =
     (let (acts, c1) = step P ev c;
          (acts', c2) = run P evs c1
      in (acts @ acts', c2))"

section \<open>The HTTP transport: safeFetchJSON\<close>

datatype result = Ok jsv | Err string

fun isOk :: "result \<Rightarrow> bool" where
  "isOk (Ok v) = True"
| "isOk (Err e) = False"

datatype http_method = GET | POST | PATCH

record request =
  req_url :: string
  req_method :: http_method
  req_headers :: "(string \<times> string) list"
  req_body :: "string option"

text \<open>
  A response of \<^verbatim>\<open>fetch\<close>. \<open>content_type\<close> is \<^verbatim>\<open>headers.get('content-type')\<close>;
  \<open>body_text\<close> is the body read as text, or \<open>Inl\<close> the message of the error that
  reading it throws.
\<close>

record http_response =
  status :: nat
  statusText :: string
  content_type :: "string option"
  body_text :: "string + string"

text \<open>\<^verbatim>\<open>fetch\<close> itself: \<open>Inl\<close> the message of the error it rejects with.\<close>

type_synonym fetch = "request \<Rightarrow> string + http_response"

definition response_ok :: "http_response \<Rightarrow> bool" where
  "response_ok resp = (200 \<le> status resp \<and> status resp \<le> 299)"

definition apostrophe :: string where
  "apostrophe = [CHR 0x27]"

definition is_json_type :: "string option \<Rightarrow> bool" where
  "is_json_type ct = (case ct of None \<Rightarrow> False | Some t \<Rightarrow> sublist ''application/json'' t)"

text \<open>The branch \<^verbatim>\<open>catch (err)\<close> of \<^verbatim>\<open>safeFetchJSON\<close>.\<close>

definition fetch_error :: "string \<Rightarrow> string \<Rightarrow> result" where
  "fetch_error u msg =
     Err (''Fetch error for '' @ apostrophe @ u @ apostrophe @ '': '' @
          (if msg = [] then ''Unknown error'' else msg))"

text \<open>The text of a failed response; any error while reading it is caught.\<close>

definition error_text :: "platform \<Rightarrow> http_response \<Rightarrow> string" where
  "error_text P resp =
     (case body_text resp of
        Inl msg \<Rightarrow> ''Failed to read response body''
      | Inr text \<Rightarrow>
          if is_json_type (content_type resp) then
            (case JSON_parse P text of
               Inl msg \<Rightarrow> ''Failed to read response body''
             | Inr v \<Rightarrow> JSON_stringify P v)
          else if text = [] then ''Empty response body'' else text)"

definition safeFetchJSON :: "platform \<Rightarrow> fetch \<Rightarrow> request \<Rightarrow> result" where
  "safeFetchJSON P fetch req =
     (case fetch req of
        Inl msg \<Rightarrow> fetch_error (req_url req) msg
      | Inr resp \<Rightarrow>
          if \<not> response_ok resp then
            Err (''Failed to fetch '' @ apostrophe @ req_url req @ apostrophe @
                 '' with code '' @ string_of_nat (status resp) @ '' '' @ statusText resp @
                 '': '' @ error_text P resp)
          else if status resp = 204 then Ok (Obj [])
          else
            (case body_text resp of
               Inl msg \<Rightarrow> fetch_error (req_url req) msg
             | Inr text \<Rightarrow>
                 if status resp = 200 \<and> (text = [] \<or> String_trim P text = []) then Ok (Obj [])
                 else if \<not> is_json_type (content_type resp) then
                   Err (''Expected JSON response from '' @ apostrophe @ req_url req @
                        apostrophe @ '', got '' @
                        (case content_type resp of
                           None \<Rightarrow> ''no content-type''
                         | Some t \<Rightarrow> if t = [] then ''no content-type'' else t) @
                        '' with code '' @ string_of_nat (status resp) @ '' '' @
                        statusText resp @ '': '' @
                        (if text = [] then ''Empty response body'' else text))
                 else
                   (case JSON_parse P text of
                      Inl msg \<Rightarrow> fetch_error (req_url req) msg
                    | Inr v \<Rightarrow> Ok v)))"

section \<open>The cache\<close>

record cache_entry =
  data :: jsv
  expiry :: nat

type_synonym cache = "string \<Rightarrow> cache_entry option"

text \<open>
  \<^verbatim>\<open>cached && cached.expiry > Date.now()\<close>: the value of an entry that has not expired.
\<close>

definition live_entry :: "cache \<Rightarrow> string \<Rightarrow> nat \<Rightarrow> jsv option" where
  "live_entry m key now =
     (case m key of None \<Rightarrow> None | Some e \<Rightarrow> if expiry e > now then Some (data e) else None)"

text \<open>
  A query object: its entries in order. The values that the methods pass are strings and
  numbers; each is represented by its string form.
\<close>

type_synonym query = "(string \<times> string) list"

fun insert_sorted :: "(string \<Rightarrow> string \<Rightarrow> int) \<Rightarrow> string \<times> string \<Rightarrow> query \<Rightarrow> query" where
  "insert_sorted cmp x [] = [x]"
| "insert_sorted cmp x (y # ys) =
     (if cmp (fst x) (fst y) \<le> 0 then x # y # ys else y # insert_sorted cmp x ys)"

text \<open>\<^verbatim>\<open>sort((a, b) => a[0].localeCompare(b[0]))\<close>, which is stable.\<close>

definition sort_entries :: "(string \<Rightarrow> string \<Rightarrow> int) \<Rightarrow> query \<Rightarrow> query" where
  "sort_entries cmp q = foldr (insert_sorted cmp) q []"

fun join :: "string \<Rightarrow> string list \<Rightarrow> string" where
  "join sep [] = []"
| "join sep [x] = x"
| "join sep (x # y # ys) = x @ sep @ join sep (y # ys)"

text \<open>
  The first match of a pattern \<^verbatim>\<open>pre([^/]+)post\<close> in a string, giving the group. Here
  \<open>post\<close> is empty or begins with a slash, so only the longest run without a slash can
  be followed by it.
\<close>

fun match_segment :: "string \<Rightarrow> string \<Rightarrow> string \<Rightarrow> string option" where
  "match_segment pre post [] = None"
| "match_segment pre post (ch # s) =
     (let rest = drop (length pre) (ch # s);
          seg = takeWhile (\<lambda>x. x \<noteq> CHR ''/'') rest
      in if prefix pre (ch # s) \<and> seg \<noteq> []
            \<and> prefix post (dropWhile (\<lambda>x. x \<noteq> CHR ''/'') rest)
         then Some seg
         else match_segment pre post s)"

section \<open>TopGGAPI\<close>

text \<open>
  Times are milliseconds since the epoch, as \<^verbatim>\<open>Date.now()\<close> returns them. Each call
  takes \<open>now\<close>, the time when it is made, and \<open>later\<close>, the time when the response
  has arrived. The third component of a result is the list of requests sent.
\<close>

record TopGGAPI =
  token :: "string option"
  cacheTTL :: nat
  cache :: cache
  rateLimitReset :: "nat option"

definition TOPGG_BASE_URL :: string where
  "TOPGG_BASE_URL = ''https://top.gg/api''"

definition TopGGAPI_new :: "(string \<times> nat option) option \<Rightarrow> TopGGAPI" where
  "TopGGAPI_new options =
     \<lparr>token = (case options of None \<Rightarrow> None | Some (t, ttl) \<Rightarrow> Some t),
      cacheTTL = (case options of
                    None \<Rightarrow> 5 * 60 * 1000
                  | Some (t, None) \<Rightarrow> 5 * 60 * 1000
                  | Some (t, Some ttl) \<Rightarrow> ttl),
      cache = Map.empty,
      rateLimitReset = None\<rparr>"

text \<open>The \<^verbatim>\<open>topgg\<close> member that the constructor of AriwaClient creates.\<close>

definition AriwaClient_topgg :: "AriwaClientOptions \<Rightarrow> TopGGAPI" where
  "AriwaClient_topgg options =
     TopGGAPI_new
       (case opt_topgg options of
          None \<Rightarrow> None
        | Some t \<Rightarrow> if t \<noteq> [] then Some (t, opt_cache options) else None)"

definition getCacheKey :: "platform \<Rightarrow> string \<Rightarrow> query option \<Rightarrow> string" where
  "getCacheKey P path q =
     (case q of
        None \<Rightarrow> path
      | Some entries \<Rightarrow>
          path @ ''?'' @
          join ''&'' (map (\<lambda>(k, v). k @ ''='' @ v) (sort_entries (localeCompare P) entries)))"

definition invalidateCache :: "platform \<Rightarrow> string \<Rightarrow> query option \<Rightarrow> TopGGAPI \<Rightarrow> TopGGAPI" where
  "invalidateCache P path q s = s\<lparr>cache := (cache s)((getCacheKey P path q) := None)\<rparr>"

definition clearCache :: "TopGGAPI \<Rightarrow> TopGGAPI" where
  "clearCache s = s\<lparr>cache := Map.empty\<rparr>"

text \<open>\<^verbatim>\<open>this.token\<close> is truthy: a token was given and is not the empty string.\<close>

definition has_token :: "TopGGAPI \<Rightarrow> bool" where
  "has_token s = (case token s of None \<Rightarrow> False | Some t \<Rightarrow> t \<noteq> [])"

text \<open>\<^verbatim>\<open>this.rateLimitReset && Date.now() < this.rateLimitReset\<close>.\<close>

definition rate_limited :: "TopGGAPI \<Rightarrow> nat \<Rightarrow> bool" where
  "rate_limited s now =
     (case rateLimitReset s of None \<Rightarrow> False | Some t \<Rightarrow> t \<noteq> 0 \<and> now < t)"

text \<open>The request that \<^verbatim>\<open>_fetch\<close> hands to \<^verbatim>\<open>safeFetchJSON\<close>.\<close>

definition TopGGAPI_request ::
  "platform \<Rightarrow> string \<Rightarrow> http_method \<Rightarrow> jsv \<Rightarrow> query option \<Rightarrow> TopGGAPI \<Rightarrow> request" where
  "TopGGAPI_request P path method body q s =
     \<lparr>req_url = TOPGG_BASE_URL @ path @
                 (case q of
                    None \<Rightarrow> []
                  | Some entries \<Rightarrow> ''?'' @ URLSearchParams_toString P entries),
      req_method = method,
      req_headers = [(''Content-Type'', ''application/json''),
                     (''Authorization'', the (token s))],
      req_body = (if truthy body then Some (JSON_stringify P body) else None)\<rparr>"

definition TopGGAPI_fetch ::
  "platform \<Rightarrow> fetch \<Rightarrow> nat \<Rightarrow> nat \<Rightarrow> string \<Rightarrow> http_method \<Rightarrow> jsv \<Rightarrow> query option \<Rightarrow> TopGGAPI
   \<Rightarrow> result \<times> TopGGAPI \<times> request list" where
  "TopGGAPI_fetch P fetch now later path method body q s =
     (if \<not> has_token s then (Err ''Top.gg token not provided'', s, [])
      else if rate_limited s now then
        (Err (''Rate limited until '' @ toISOString P (the (rateLimitReset s))), s, [])
      else
        (let req = TopGGAPI_request P path method body q s;
             res = safeFetchJSON P fetch req
         in case res of
              Err e \<Rightarrow>
                if sublist ''429'' e then
                  (Err ''Rate limit exceeded, retry later'',
                   s\<lparr>rateLimitReset := Some (later + 60 * 1000)\<rparr>, [req])
                else (res, s, [req])
            | Ok v \<Rightarrow> (res, s, [req])))"

definition TopGGAPI_fetchWithCache ::
  "platform \<Rightarrow> fetch \<Rightarrow> nat \<Rightarrow> nat \<Rightarrow> string \<Rightarrow> http_method \<Rightarrow> jsv \<Rightarrow> query option \<Rightarrow> TopGGAPI
   \<Rightarrow> result \<times> TopGGAPI \<times> request list" where
  "TopGGAPI_fetchWithCache P fetch now later path method body q s =
     (if method \<noteq> GET then
        (let (res, s1, reqs) = TopGGAPI_fetch P fetch now later path method body q s
         in if isOk res \<and> method = POST \<and> suffix ''/stats'' path then
              (case match_segment ''/bots/'' ''/stats'' path of
                 None \<Rightarrow> (res, s1, reqs)
               | Some botId \<Rightarrow>
                   if botId \<noteq> [] then
                     (res,
                      invalidateCache P (''/bots/'' @ botId) None
                        (invalidateCache P (''/bots/'' @ botId @ ''/stats'') None s1),
                      reqs)
                   else (res, s1, reqs))
            else (res, s1, reqs))
      else
        (let key = getCacheKey P path q
         in case live_entry (cache s) key now of
              Some v \<Rightarrow> (Ok v, s, [])
            | None \<Rightarrow>
                (let (res, s1, reqs) = TopGGAPI_fetch P fetch now later path method body q s
                 in case res of
                      Ok v \<Rightarrow>
                        (res,
                         s1\<lparr>cache := (cache s1)(key \<mapsto> \<lparr>data = v, expiry = later + cacheTTL s1\<rparr>)\<rparr>,
                         reqs)
                    | Err e \<Rightarrow> (res, s1, reqs))))"

text \<open>The public methods. A method without a method argument is a GET without a body.\<close>

definition postStats ::
  "platform \<Rightarrow> fetch \<Rightarrow> nat \<Rightarrow> nat \<Rightarrow> string \<Rightarrow> jsv \<Rightarrow> TopGGAPI \<Rightarrow> result \<times> TopGGAPI \<times> request list" where
  "postStats P fetch now later botId stats s =
     TopGGAPI_fetchWithCache P fetch now later (''/bots/'' @ botId @ ''/stats'') POST stats None s"

definition getBots ::
  "platform \<Rightarrow> fetch \<Rightarrow> nat \<Rightarrow> nat \<Rightarrow> query \<Rightarrow> TopGGAPI \<Rightarrow> result \<times> TopGGAPI \<times> request list" where
  "getBots P fetch now later options s =
     TopGGAPI_fetchWithCache P fetch now later ''/bots'' GET Undefined (Some options) s"

definition getBot ::
  "platform \<Rightarrow> fetch \<Rightarrow> nat \<Rightarrow> nat \<Rightarrow> string \<Rightarrow> TopGGAPI \<Rightarrow> result \<times> TopGGAPI \<times> request list" where
  "getBot P fetch now later botId s =
     TopGGAPI_fetchWithCache P fetch now later (''/bots/'' @ botId) GET Undefined None s"

definition getVotes ::
  "platform \<Rightarrow> fetch \<Rightarrow> nat \<Rightarrow> nat \<Rightarrow> string \<Rightarrow> TopGGAPI \<Rightarrow> result \<times> TopGGAPI \<times> request list" where
  "getVotes P fetch now later botId s =
     TopGGAPI_fetchWithCache P fetch now later (''/bots/'' @ botId @ ''/votes'') GET Undefined None s"

text \<open>
  \<^verbatim>\<open>hasVoted\<close> reads the property \<^verbatim>\<open>voted\<close> of the payload, which throws a TypeError
  when the payload is \<^verbatim>\<open>null\<close>.
\<close>

definition hasVoted ::
  "platform \<Rightarrow> fetch \<Rightarrow> nat \<Rightarrow> nat \<Rightarrow> string \<Rightarrow> string \<Rightarrow> TopGGAPI
   \<Rightarrow> (js_error + result) \<times> TopGGAPI \<times> request list" where
  "hasVoted P fetch now later botId userId s =
     (let (res, s1, reqs) =
            TopGGAPI_fetchWithCache P fetch now later (''/bots/'' @ botId @ ''/check'') GET
              Undefined (Some [(''userId'', userId)]) s
      in case res of
           Ok v \<Rightarrow>
             (case v of
                Undefined \<Rightarrow> (Inl TypeError, s1, reqs)
              | Null \<Rightarrow> (Inl TypeError, s1, reqs)
              | Obj kvs \<Rightarrow> (Inr (Ok (Bool (get_prop kvs ''voted'' = Num 1))), s1, reqs)
              | _ \<Rightarrow> (Inr (Ok (Bool False)), s1, reqs))
         | Err e \<Rightarrow> (Inr (Err e), s1, reqs))"

definition getStats ::
  "platform \<Rightarrow> fetch \<Rightarrow> nat \<Rightarrow> nat \<Rightarrow> string \<Rightarrow> TopGGAPI \<Rightarrow> result \<times> TopGGAPI \<times> request list" where
  "getStats P fetch now later botId s =
     TopGGAPI_fetchWithCache P fetch now later (''/bots/'' @ botId @ ''/stats'') GET Undefined None s"

text \<open>A call of a public method of TopGGAPI, and its result with the payload or message.\<close>

datatype topgg_call =
    PostStats string jsv
  | GetBots query
  | GetBot string
  | GetVotes string
  | HasVoted string string
  | GetStats string
  | InvalidateCache string "query option"
  | ClearCache

fun call_topgg ::
  "platform \<Rightarrow> fetch \<Rightarrow> nat \<Rightarrow> nat \<Rightarrow> topgg_call \<Rightarrow> TopGGAPI
   \<Rightarrow> (js_error + result) option \<times> TopGGAPI \<times> request list" where
  "call_topgg P fetch now later (PostStats botId stats) s =
     (let (res, s1, reqs) = postStats P fetch now later botId stats s in (Some (Inr res), s1, reqs))"
| "call_topgg P fetch now later (GetBots options) s =
     (let (res, s1, reqs) = getBots P fetch now later options s in (Some (Inr res), s1, reqs))"
| "call_topgg P fetch now later (GetBot botId) s =
     (let (res, s1, reqs) = getBot P fetch now later botId s in (Some (Inr res), s1, reqs))"
| "call_topgg P fetch now later (GetVotes botId) s =
     (let (res, s1, reqs) = getVotes P fetch now later botId s in (Some (Inr res), s1, reqs))"
| "call_topgg P fetch now later (HasVoted botId userId) s =
     (let (res, s1, reqs) = hasVoted P fetch now later botId userId s in (Some res, s1, reqs))"
| "call_topgg P fetch now later (GetStats botId) s =
     (let (res, s1, reqs) = getStats P fetch now later botId s in (Some (Inr res), s1, reqs))"
| "call_topgg P fetch now later (InvalidateCache path q) s = (None, invalidateCache P path q s, [])"
| "call_topgg P fetch now later ClearCache s = (None, clearCache s, [])"

text \<open>
  A sequence of calls, each with its own network and times, made one after the other on
  the object; the results and the requests of all calls are collected.
\<close>

fun topgg_calls ::
  "platform \<Rightarrow> (fetch \<times> nat \<times> nat \<times> topgg_call) list \<Rightarrow> TopGGAPI
   \<Rightarrow> (js_error + result) option list \<times> TopGGAPI \<times> request list" where
  "topgg_calls P [] s = ([], s, [])"
| "topgg_calls P ((fetch, now, later, call) # calls) s =
     (let (res, s1, reqs) = call_topgg P fetch now later call s;
          (ress, s2, reqs') = topgg_calls P calls s1
      in (res # ress, s2, reqs @ reqs'))"

section \<open>AriwaAPI\<close>

record AriwaAPI =
  token_ws :: string
  cacheTTL_ws :: nat
  cache_ws :: cache

definition BASE_URL :: string where
  "BASE_URL = ''https://api.websockets-topgg.com/v0/api''"

text \<open>The constructor throws when the token is empty.\<close>

definition AriwaAPI_new :: "string \<Rightarrow> nat option \<Rightarrow> string + AriwaAPI" where
  "AriwaAPI_new t ttl =
     (if t = [] then Inl ''AriwaAPI requires a token''
      else Inr \<lparr>token_ws = t,
                cacheTTL_ws = (case ttl of None \<Rightarrow> 5 * 60 * 1000 | Some n \<Rightarrow> n),
                cache_ws = Map.empty\<rparr>)"

definition getCacheKey_ws :: "string \<Rightarrow> string" where
  "getCacheKey_ws path = path"

definition invalidateCache_ws :: "string \<Rightarrow> AriwaAPI \<Rightarrow> AriwaAPI" where
  "invalidateCache_ws path s = s\<lparr>cache_ws := (cache_ws s)((getCacheKey_ws path) := None)\<rparr>"

definition clearCache_ws :: "AriwaAPI \<Rightarrow> AriwaAPI" where
  "clearCache_ws s = s\<lparr>cache_ws := Map.empty\<rparr>"

definition AriwaAPI_request ::
  "platform \<Rightarrow> string \<Rightarrow> http_method \<Rightarrow> jsv \<Rightarrow> AriwaAPI \<Rightarrow> request" where
  "AriwaAPI_request P path method body s =
     \<lparr>req_url = BASE_URL @ path,
      req_method = method,
      req_headers = [(''Content-Type'', ''application/json''),
                     (''Authorization'', token_ws s)],
      req_body = (if truthy body then Some (JSON_stringify P body) else None)\<rparr>"

definition AriwaAPI_fetch ::
  "platform \<Rightarrow> fetch \<Rightarrow> string \<Rightarrow> http_method \<Rightarrow> jsv \<Rightarrow> AriwaAPI \<Rightarrow> result \<times> request list" where
  "AriwaAPI_fetch P fetch path method body s =
     (let req = AriwaAPI_request P path method body s
      in (safeFetchJSON P fetch req, [req]))"

definition AriwaAPI_fetchWithCache ::
  "platform \<Rightarrow> fetch \<Rightarrow> nat \<Rightarrow> nat \<Rightarrow> string \<Rightarrow> http_method \<Rightarrow> jsv \<Rightarrow> AriwaAPI
   \<Rightarrow> result \<times> AriwaAPI \<times> request list" where
  "AriwaAPI_fetchWithCache P fetch now later path method body s =
     (if method \<noteq> GET then
        (let (res, reqs) = AriwaAPI_fetch P fetch path method body s
         in if isOk res \<and> sublist ''/user/'' path \<and> suffix ''/reminders'' path then
              (case match_segment ''/user/'' [] path of
                 None \<Rightarrow> (res, s, reqs)
               | Some userId \<Rightarrow>
                   if userId \<noteq> [] then (res, invalidateCache_ws (''/user/'' @ userId) s, reqs)
                   else (res, s, reqs))
            else (res, s, reqs))
      else
        (let key = getCacheKey_ws path
         in case live_entry (cache_ws s) key now of
              Some v \<Rightarrow> (Ok v, s, [])
            | None \<Rightarrow>
                (let (res, reqs) = AriwaAPI_fetch P fetch path method body s
                 in case res of
                      Ok v \<Rightarrow>
                        (res,
                         s\<lparr>cache_ws := (cache_ws s)(key \<mapsto> \<lparr>data = v, expiry = later + cacheTTL_ws s\<rparr>)\<rparr>,
                         reqs)
                    | Err e \<Rightarrow> (res, s, reqs))))"

definition getEntity ::
  "platform \<Rightarrow> fetch \<Rightarrow> nat \<Rightarrow> nat \<Rightarrow> AriwaAPI \<Rightarrow> result \<times> AriwaAPI \<times> request list" where
  "getEntity P fetch now later s =
     AriwaAPI_fetchWithCache P fetch now later ''/entity'' GET Undefined s"



section \<open>Properties of traces\<close>

text \<open>The marker that a frame carries: the third component of the destructuring.\<close>

definition frame_ts :: "platform \<Rightarrow> string \<Rightarrow> jsv" where
  "frame_ts P raw =
     (case JSON_parse P raw of
        Inl m \<Rightarrow> Undefined
      | Inr v \<Rightarrow>
          (case destructure v of Inl err \<Rightarrow> Undefined | Inr (op, d, ts) \<Rightarrow> ts))"

text \<open>
  Every call of \<^verbatim>\<open>saveTimestamp\<close> in a trace writes the value that the latest
  assignment before it put into the marker; \<open>m\<close> is that value at the start.
\<close>

fun save_follows_assign :: "jsv option \<Rightarrow> action list \<Rightarrow> bool" where
  "save_follows_assign m [] = True"
| "save_follows_assign m (Assign_lastMessageTimestamp v # acts) =
     save_follows_assign (Some v) acts"
| "save_follows_assign m (Call_saveTimestamp p v # acts) =
     (m = Some v \<and> save_follows_assign m acts)"
| "save_follows_assign m (a # acts) = save_follows_assign m acts"

fun last_assigned :: "jsv option \<Rightarrow> action list \<Rightarrow> jsv option" where
  "last_assigned m [] = m"
| "last_assigned m (Assign_lastMessageTimestamp v # acts) = last_assigned (Some v) acts"
| "last_assigned m (a # acts) = last_assigned m acts"

text \<open>A marker that is a number below an earlier one.\<close>

fun regresses :: "jsv \<Rightarrow> jsv \<Rightarrow> bool" where
  "regresses (Num a) (Num b) = (b < a)"
| "regresses x y = False"

text \<open>The markers that the frames of a session carry, in order, after the initial one.\<close>

definition observed :: "platform \<Rightarrow> string list \<Rightarrow> AriwaClient \<Rightarrow> jsv list" where
  "observed P raws c = lastMessageTimestamp c # filter truthy (map (frame_ts P) raws)"

section \<open>Example objects\<close>

text \<open>
  A platform whose \<^verbatim>\<open>JSON.parse\<close> knows the texts of three frames, of a response body
  and of \<^verbatim>\<open>null\<close>, and rejects every other text; it compares strings by character code.
\<close>

definition frame_ready :: string where
  \<open>frame_ready = ''{"op":3,"d":{"name":"x"},"ts":7}''\<close>

definition frame_vote5 :: string where
  \<open>frame_vote5 = ''{"op":10,"d":{"user":"u"},"ts":5}''\<close>

definition frame_vote3 :: string where
  \<open>frame_vote3 = ''{"op":10,"d":{"user":"u"},"ts":3}''\<close>

definition body_bot :: string where
  \<open>body_bot = ''{"id":"1"}''\<close>

definition parse_example :: "string \<Rightarrow> string + jsv" where
  "parse_example s =
     (if s = ''null'' then Inr Null
      else if s = frame_ready then
        Inr (Obj [(''op'', Num 3), (''d'', Obj [(''name'', Str ''x'')]), (''ts'', Num 7)])
      else if s = frame_vote5 then
        Inr (Obj [(''op'', Num 10), (''d'', Obj [(''user'', Str ''u'')]), (''ts'', Num 5)])
      else if s = frame_vote3 then
        Inr (Obj [(''op'', Num 10), (''d'', Obj [(''user'', Str ''u'')]), (''ts'', Num 3)])
      else if s = body_bot then Inr (Obj [(''id'', Str ''1'')])
      else Inl ''Unexpected token'')"

text \<open>
  The example platform trims the ASCII white space, rounds a real within the range of the
  doubles to itself and one beyond it to an infinity, and computes a power exactly before
  rounding it.
\<close>

definition is_space :: "char \<Rightarrow> bool" where
  "is_space ch = (ch \<in> {CHR 0x20, CHR 0x09, CHR 0x0A, CHR 0x0B, CHR 0x0C, CHR 0x0D})"

definition trim_example :: "string \<Rightarrow> string" where
  "trim_example s = rev (dropWhile is_space (rev (dropWhile is_space s)))"

definition DBL_MAX :: real where
  "DBL_MAX = 2 ^ 1024 - 2 ^ 971"

definition round_example :: "real \<Rightarrow> double" where
  "round_example x =
     (if DBL_MAX < x then PosInf else if x < - DBL_MAX then NegInf else Fin x)"

definition pow_example :: "real \<Rightarrow> nat \<Rightarrow> double" where
  "pow_example x k = round_example (x ^ k)"

fun compare_codes :: "string \<Rightarrow> string \<Rightarrow> int" where
  "compare_codes [] [] = 0"
| "compare_codes [] (y # ys) = - 1"
| "compare_codes (x # xs) [] = 1"
| "compare_codes (x # xs) (y # ys) =
     (if x = y then compare_codes xs ys
      else if (of_char x :: nat) < of_char y then - 1 else 1)"

definition P_example :: platform where
  "P_example =
     \<lparr>JSON_parse = parse_example,
      JSON_stringify = (\<lambda>v. ''{}''),
      toISOString = string_of_nat,
      URLSearchParams_toString = (\<lambda>q. join ''&'' (map (\<lambda>(k, v). k @ ''='' @ v) q)),
      localeCompare = compare_codes,
      String_trim = trim_example,
      round_double = round_example,
      Math_pow = pow_example\<rparr>"

definition options_example :: AriwaClientOptions where
  "options_example =
     \<lparr>opt_topgg = None, opt_ws = ''ws-token'', opt_name = ''TestClient'',
      opt_cache = Some 1000, opt_autoReconnect = None, opt_initialDelay = None,
      opt_maxDelay = None, opt_maxAttempts = None, opt_persistPath = Some ''ts.json''\<rparr>"

definition client_example :: AriwaClient where
  "client_example = AriwaClient_new options_example"

definition fetch_200 :: fetch where
  "fetch_200 req =
     Inr \<lparr>status = 200, statusText = ''OK'', content_type = Some ''application/json'',
          body_text = Inr body_bot\<rparr>"







section \<open>Frame dispatch\<close>

lemma destructure_Inr:
  "v \<noteq> Null \<Longrightarrow> v \<noteq> Undefined \<Longrightarrow> \<exists>op d ts. destructure v = Inr (op, d, ts)"
  by (cases v) simp_all

lemma handleMessage_emitted:
  "JSON_parse P raw = Inr v \<Longrightarrow> destructure v = Inr (op, d, ts) \<Longrightarrow>
   emitted (fst (handleMessage P raw c)) = [dispatch op d ts]"
  by (simp add: handleMessage_def emitted_def dispatch_def split: option.splits)

text \<open>The merged payload has the marker under \<^verbatim>\<open>ts\<close> and every other property as before.\<close>

lemma map_of_set_prop: "map_of (set_prop k x kvs) = (map_of kvs)(k \<mapsto> x)"
  by (induction kvs) (auto simp: fun_eq_iff)

lemma get_prop_spread_ts:
  "spread_ts (Obj kvs) ts = Obj kvs' \<Longrightarrow>
   get_prop kvs' k = (if k = ''ts'' then ts else get_prop kvs k)"
  by (auto simp: spread_ts_def get_prop_def map_of_set_prop)

text \<open>
  Claim C1, as amended. A message that parses to a value other than \<^verbatim>\<open>null\<close> makes
  \<^verbatim>\<open>handleMessage\<close> emit exactly one event, chosen by the op code: op 3 emits \<^verbatim>\<open>ready\<close>
  with the payload \<open>d\<close> alone, without the marker; op 10, 11 and 12 emit \<^verbatim>\<open>vote\<close>,
  \<^verbatim>\<open>test\<close> and \<^verbatim>\<open>reminder\<close> with the payload merged with the \<^verbatim>\<open>ts\<close> field; any other
  op code emits \<^verbatim>\<open>unknownOp\<close> with the raw code and the payload.
\<close>

theorem handleMessage_one_event:
  assumes "JSON_parse P raw = Inr v" and "v \<noteq> Null" and "v \<noteq> Undefined"
  shows "case destructure v of
           Inl err \<Rightarrow> False
         | Inr (op, d, ts) \<Rightarrow>
             length (emitted (fst (handleMessage P raw c))) = 1 \<and>
             (op = Num 3 \<longrightarrow> emitted (fst (handleMessage P raw c)) = [Emit ''ready'' [d]]) \<and>
             (op = Num 10 \<longrightarrow>
                emitted (fst (handleMessage P raw c)) = [Emit ''vote'' [spread_ts d ts]]) \<and>
             (op = Num 11 \<longrightarrow>
                emitted (fst (handleMessage P raw c)) = [Emit ''test'' [spread_ts d ts]]) \<and>
             (op = Num 12 \<longrightarrow>
                emitted (fst (handleMessage P raw c)) = [Emit ''reminder'' [spread_ts d ts]]) \<and>
             (op \<notin> {Num 3, Num 10, Num 11, Num 12} \<longrightarrow>
                emitted (fst (handleMessage P raw c)) = [Emit ''unknownOp'' [op, d]])"
proof -
  obtain op d ts where des: "destructure v = Inr (op, d, ts)"
    using destructure_Inr [OF assms(2,3)] by blast
  have "emitted (fst (handleMessage P raw c)) = [dispatch op d ts]"
    by (rule handleMessage_emitted [OF assms(1) des])
  then show ?thesis
    by (simp add: des dispatch_def)
qed

theorem handleMessage_one_event_witness:
  "JSON_parse P_example frame_vote5 =
     Inr (Obj [(''op'', Num 10), (''d'', Obj [(''user'', Str ''u'')]), (''ts'', Num 5)]) \<and>
   emitted (fst (handleMessage P_example frame_vote5 client_example)) =
     [Emit ''vote'' [Obj [(''user'', Str ''u''), (''ts'', Num 5)]]]"
  using handleMessage_one_event [of P_example frame_vote5
      "Obj [(''op'', Num 10), (''d'', Obj [(''user'', Str ''u'')]), (''ts'', Num 5)]" client_example]
  by (simp add: P_example_def parse_example_def frame_vote5_def frame_ready_def get_prop_def
      spread_ts_def)

text \<open>
  The claim as stated fails for op 3: a \<^verbatim>\<open>ready\<close> frame that carries a marker is emitted
  with its payload only.
\<close>

theorem ready_payload_not_merged:
  "emitted (fst (handleMessage P_example frame_ready client_example)) =
     [Emit ''ready'' [Obj [(''name'', Str ''x'')]]] \<and>
   emitted (fst (handleMessage P_example frame_ready client_example)) \<noteq>
     [Emit ''ready'' [spread_ts (Obj [(''name'', Str ''x'')]) (Num 7)]]"
  by (simp add: handleMessage_def P_example_def parse_example_def frame_ready_def get_prop_def
      spread_ts_def dispatch_def emitted_def client_example_def AriwaClient_new_def
      options_example_def)

text \<open>
  Claim C10. The message \<^verbatim>\<open>null\<close> is valid JSON, yet \<^verbatim>\<open>handleMessage\<close> emits nothing
  for it, neither \<^verbatim>\<open>unknownOp\<close> nor \<^verbatim>\<open>error\<close>: destructuring \<^verbatim>\<open>null\<close> throws a
  TypeError outside the \<^verbatim>\<open>try\<close> block and the handler's promise rejects.
\<close>

theorem null_frame_rejects:
  "JSON_parse P_example ''null'' = Inr Null \<and>
   handleMessage P_example ''null'' client_example = ([Throw TypeError], client_example) \<and>
   emitted (fst (handleMessage P_example ''null'' client_example)) = []"
  by (simp add: handleMessage_def P_example_def parse_example_def emitted_def)

section \<open>The resumption marker\<close>

lemma dispatch_is_Emit: "\<exists>e args. dispatch op d ts = Emit e args"
  by (simp add: dispatch_def)

lemma handleMessage_marker:
  "lastMessageTimestamp (snd (handleMessage P raw c)) =
     (if truthy (frame_ts P raw) then frame_ts P raw else lastMessageTimestamp c)"
  by (simp add: handleMessage_def frame_ts_def split: sum.splits prod.splits)

lemma handleMessages_marker:
  "lastMessageTimestamp (snd (handleMessages P raws c)) = last (observed P raws c)"
proof (induction raws arbitrary: c)
  case Nil
  show ?case by (simp add: observed_def)
next
  case (Cons raw raws)
  have "lastMessageTimestamp (snd (handleMessages P (raw # raws) c)) =
        last (observed P raws (snd (handleMessage P raw c)))"
    using Cons.IH [of "snd (handleMessage P raw c)"] by (simp add: split_def Let_def)
  also have "\<dots> = last (observed P (raw # raws) c)"
    by (simp add: observed_def handleMessage_marker)
  finally show ?case .
qed

lemma save_follows_assign_append:
  "save_follows_assign m (xs @ ys) =
     (save_follows_assign m xs \<and> save_follows_assign (last_assigned m xs) ys)"
  by (induction m xs rule: save_follows_assign.induct) simp_all

lemma handleMessage_save_follows_assign:
  "save_follows_assign m (fst (handleMessage P raw c))"
proof -
  have emit: "save_follows_assign m' (dispatch op d ts # acts) = save_follows_assign m' acts"
    for m' op d ts acts
    using dispatch_is_Emit [of op d ts] by auto
  show ?thesis
    by (simp add: handleMessage_def emit split: sum.splits prod.splits option.splits)
qed

lemma handleMessages_save_follows_assign:
  "save_follows_assign m (fst (handleMessages P raws c))"
proof (induction raws arbitrary: m c)
  case Nil
  show ?case by simp
next
  case (Cons raw raws)
  show ?case
    by (simp add: split_def Let_def save_follows_assign_append
        handleMessage_save_follows_assign Cons.IH)
qed

lemma not_regresses_refl: "\<not> regresses x x"
  by (cases x) simp_all

lemma observed_append:
  "observed P (xs @ ys) c = observed P xs c @ filter truthy (map (frame_ts P) ys)"
  by (simp add: observed_def)

lemma last_ordered:
  assumes "sorted_wrt (\<lambda>a b. \<not> regresses a b) (as @ bs)" and "as \<noteq> []"
  shows "\<not> regresses (last as) (last (as @ bs))"
proof (cases "bs = []")
  case True
  then show ?thesis by (simp add: not_regresses_refl)
next
  case False
  then have "last (as @ bs) \<in> set bs" by simp
  moreover have "last as \<in> set as" using assms(2) by simp
  ultimately show ?thesis
    using assms(1) by (auto simp: sorted_wrt_append)
qed

text \<open>
  Claim C9, as amended. \<^verbatim>\<open>handleMessage\<close> assigns the marker of every frame that carries a
  truthy \<^verbatim>\<open>ts\<close> and compares nothing: after any sequence of frames the stored
  \<^verbatim>\<open>lastMessageTimestamp\<close> is the most recently observed marker (the initial one when no
  frame carried any). So it does not regress as long as the markers arrive in
  non-decreasing order. Every call of \<^verbatim>\<open>saveTimestamp\<close> comes after the assignment of
  the same value to the marker in memory.
\<close>

theorem marker_is_latest_observed:
  "lastMessageTimestamp (snd (handleMessages P raws c)) = last (observed P raws c) \<and>
   save_follows_assign None (fst (handleMessages P raws c)) \<and>
   (sorted_wrt (\<lambda>a b. \<not> regresses a b) (observed P (raws @ raws2) c) \<longrightarrow>
      \<not> regresses (lastMessageTimestamp (snd (handleMessages P raws c)))
                   (lastMessageTimestamp (snd (handleMessages P (raws @ raws2) c))))"
proof -
  have "observed P raws c \<noteq> []" by (simp add: observed_def)
  then show ?thesis
    using last_ordered [of "observed P raws c" "filter truthy (map (frame_ts P) raws2)"]
    by (simp add: handleMessages_marker handleMessages_save_follows_assign observed_append)
qed

theorem marker_is_latest_observed_witness:
  "sorted_wrt (\<lambda>a b. \<not> regresses a b) (observed P_example ([frame_vote3] @ [frame_vote5]) client_example) \<and>
   lastMessageTimestamp (snd (handleMessages P_example [frame_vote3] client_example)) = Num 3 \<and>
   lastMessageTimestamp (snd (handleMessages P_example ([frame_vote3] @ [frame_vote5]) client_example)) = Num 5 \<and>
   fst (handleMessages P_example [frame_vote3] client_example) =
     [Emit ''vote'' [Obj [(''user'', Str ''u''), (''ts'', Num 3)]],
      Assign_lastMessageTimestamp (Num 3), Call_saveTimestamp ''ts.json'' (Num 3)] \<and>
   \<not> regresses (lastMessageTimestamp (snd (handleMessages P_example [frame_vote3] client_example)))
                (lastMessageTimestamp (snd (handleMessages P_example ([frame_vote3] @ [frame_vote5]) client_example)))"
  using marker_is_latest_observed [of P_example "[frame_vote3]" client_example "[frame_vote5]"]
  by (simp add: observed_def frame_ts_def handleMessage_def P_example_def parse_example_def
      frame_vote3_def frame_vote5_def frame_ready_def get_prop_def client_example_def
      AriwaClient_new_def options_example_def dispatch_def spread_ts_def)

text \<open>
  The claim as stated fails: a frame with marker 3 after a frame with marker 5 puts the
  stored marker back to 3.
\<close>

theorem marker_regresses:
  "lastMessageTimestamp (snd (handleMessages P_example [frame_vote5] client_example)) = Num 5 \<and>
   lastMessageTimestamp (snd (handleMessages P_example [frame_vote5, frame_vote3] client_example)) = Num 3 \<and>
   regresses (Num 5) (Num 3)"
  by (simp add: handleMessage_def P_example_def parse_example_def
      frame_vote3_def frame_vote5_def frame_ready_def get_prop_def)

section \<open>Reconnection\<close>

lemma reconnect_timers:
  "timers (reconnect P r c) =
     timers c @
     [dadd (round_double P)
        (dmin (dmul (round_double P) (reconnectDelay c)
                 (Math_pow P (3 / 2) (reconnectAttempts c)))
              (maxReconnectDelay c))
        (dmul (round_double P) (Fin r) (Fin 1000))]"
  by (simp add: reconnect_def Let_def)





lemma dmin_NaN: "dmin a b = NaN \<longleftrightarrow> a = NaN \<or> b = NaN"
  by (cases a; cases b) simp_all










text \<open>The rounding of the example platform has the properties assumed of the format's.\<close>

lemma DBL_MAX_large: "10 ^ 9 \<le> DBL_MAX"
  by (simp add: DBL_MAX_def)

lemma round_example_small: "\<bar>x\<bar> \<le> 10 ^ 9 \<Longrightarrow> round_example x = Fin x"
  using DBL_MAX_large by (auto simp: round_example_def)





lemma P_example_arith:
  "round_double P_example = round_example" "Math_pow P_example = pow_example"
  by (simp_all add: P_example_def)



text \<open>
  Claim C3. The close listener never schedules a reconnection for code 1000, whatever
  \<open>autoReconnect\<close>, the intentional-close flag and the attempt counter are: the client
  is left as it was. For any other code it calls \<^verbatim>\<open>reconnect\<close>, which sets one timer,
  exactly when reconnection is enabled, the close was not intentional and the counter is
  below \<open>maxReconnectAttempts\<close>; otherwise the client is left as it was. In every case
  it emits \<^verbatim>\<open>disconnected\<close> with the code and the reason.
\<close>

theorem close_schedules_reconnect:
  "(code = 1000 \<longrightarrow> snd (ws_on_close P code reason r c) = c) \<and>
   (code \<noteq> 1000 \<longrightarrow>
      (if autoReconnect c \<and> \<not> intentionalClose c
          \<and> enat (reconnectAttempts c) < maxReconnectAttempts c
       then snd (ws_on_close P code reason r c) = reconnect P r c
          \<and> length (timers (snd (ws_on_close P code reason r c))) = Suc (length (timers c))
       else snd (ws_on_close P code reason r c) = c)) \<and>
   fst (ws_on_close P code reason r c) = [Emit ''disconnected'' [Num (of_int code), Str reason]]"
  by (simp add: ws_on_close_def reconnect_timers)

theorem close_schedules_reconnect_witness:
  "snd (ws_on_close P_example 1000 ''bye'' (1 / 2) client_example) = client_example \<and>
   timers (snd (ws_on_close P_example 1006 '''' (1 / 2) client_example)) = [Fin 1500] \<and>
   timers (snd (ws_on_close P_example 1006 '''' (1 / 2)
                  (client_example\<lparr>intentionalClose := True\<rparr>))) = []"
  using close_schedules_reconnect [of 1000 P_example "''bye''" "1 / 2" client_example]
    close_schedules_reconnect [of 1006 P_example "''''" "1 / 2" client_example]
    close_schedules_reconnect [of 1006 P_example "''''" "1 / 2"
      "client_example\<lparr>intentionalClose := True\<rparr>"]
  by (simp add: client_example_def AriwaClient_new_def options_example_def reconnect_timers
      P_example_arith pow_example_def round_example_small)

text \<open>
  Claim C2. A socket closes with code 1006 and a reconnection timer is set; the caller
  then calls \<^verbatim>\<open>disconnect()\<close>. The socket is not open any more, so \<^verbatim>\<open>disconnect\<close>
  returns early: it neither sets the intentional-close flag nor touches the timer. When
  the timer fires, \<^verbatim>\<open>_connect\<close> creates a second socket, which opens.
\<close>

theorem reconnect_after_disconnect:
  "(let (acts, c1) = run P_example [Call_connect Undefined Undefined, Socket_open 0,
                        Socket_close 0 1006 '''' (1 / 2)] client_example;
        c2 = disconnect c1;
        (acts', c3) = run P_example [Timer_fires 0, Socket_open 1] c2
    in timers c1 = [Fin 1500] \<and> ws c2 = None \<and> \<not> intentionalClose c2 \<and>
       timers c2 = [Fin 1500] \<and> length (sockets c2) = 1 \<and>
       length (sockets c3) = 2 \<and> ws c3 = Some 1 \<and> readyState (sockets c3 ! 1) = OPEN \<and>
       acts' = [Emit ''open'' []])"
  by (simp add: client_example_def AriwaClient_new_def options_example_def connect_def
      priv_connect_def ws_on_open_def ws_on_close_def reconnect_def disconnect_def Let_def
      P_example_arith pow_example_def round_example_small)

section \<open>The bot-listing API without a token\<close>

lemma TopGGAPI_fetch_no_token:
  "\<not> has_token s \<Longrightarrow>
   TopGGAPI_fetch P fetch now later path method body q s =
     (Err ''Top.gg token not provided'', s, [])"
  by (simp add: TopGGAPI_fetch_def)

lemma TopGGAPI_fetchWithCache_no_token:
  "\<not> has_token s \<Longrightarrow> cache s = Map.empty \<Longrightarrow>
   TopGGAPI_fetchWithCache P fetch now later path method body q s =
     (Err ''Top.gg token not provided'', s, [])"
  by (simp add: TopGGAPI_fetchWithCache_def TopGGAPI_fetch_no_token live_entry_def)

lemma call_topgg_no_token:
  assumes "\<not> has_token s" and "cache s = Map.empty"
  shows "\<exists>r. call_topgg P fetch now later call s = (r, s, []) \<and>
             (r = None \<or> r = Some (Inr (Err ''Top.gg token not provided'')))"
  using assms
  by (cases call)
     (simp_all add: postStats_def getBots_def getBot_def getVotes_def hasVoted_def getStats_def
        TopGGAPI_fetchWithCache_no_token invalidateCache_def clearCache_def)

lemma topgg_calls_no_token:
  assumes "\<not> has_token s" and "cache s = Map.empty"
  shows "snd (topgg_calls P calls s) = (s, []) \<and>
         (\<forall>r \<in> set (fst (topgg_calls P calls s)).
            r = None \<or> r = Some (Inr (Err ''Top.gg token not provided'')))"
proof (induction calls)
  case Nil
  show ?case by simp
next
  case (Cons x calls)
  obtain fetch now later call where x: "x = (fetch, now, later, call)"
    by (cases x) auto
  obtain r where r: "call_topgg P fetch now later call s = (r, s, [])"
    "r = None \<or> r = Some (Inr (Err ''Top.gg token not provided''))"
    using call_topgg_no_token [OF assms] by blast
  show ?case
    using Cons.IH r by (auto simp: x split_def Let_def)
qed

lemma AriwaClient_topgg_no_token:
  "opt_topgg options = None \<or> opt_topgg options = Some [] \<Longrightarrow>
   \<not> has_token (AriwaClient_topgg options) \<and> cache (AriwaClient_topgg options) = Map.empty"
  by (auto simp: AriwaClient_topgg_def TopGGAPI_new_def has_token_def)

text \<open>
  Claim C5. On the \<^verbatim>\<open>topgg\<close> object that the client creates when no Top.gg token is
  configured, every call of every method, in any sequence of calls, returns the failure
  \<^verbatim>\<open>Top.gg token not provided\<close> and sends no request (\<^verbatim>\<open>invalidateCache\<close> and
  \<^verbatim>\<open>clearCache\<close> return nothing); so does \<^verbatim>\<open>_fetch\<close> itself.
\<close>

theorem no_token_no_request:
  assumes "opt_topgg options = None \<or> opt_topgg options = Some []"
  shows "snd (snd (topgg_calls P calls (AriwaClient_topgg options))) = [] \<and>
         (\<forall>r \<in> set (fst (topgg_calls P calls (AriwaClient_topgg options))).
            r = None \<or> r = Some (Inr (Err ''Top.gg token not provided''))) \<and>
         TopGGAPI_fetch P fetch now later path method body q (AriwaClient_topgg options) =
           (Err ''Top.gg token not provided'', AriwaClient_topgg options, [])"
  using AriwaClient_topgg_no_token [OF assms]
    topgg_calls_no_token [of "AriwaClient_topgg options" P calls]
  by (simp add: TopGGAPI_fetch_no_token)

theorem no_token_no_request_witness:
  "opt_topgg options_example = None \<and>
   topgg_calls P_example
     [(fetch_200, 0, 5, GetBot ''1348997894''),
      (fetch_200, 10, 15, PostStats ''1348997894'' (Obj [(''server_count'', Num 32)])),
      (fetch_200, 20, 25, HasVoted ''1348997894'' ''13489838383''),
      (fetch_200, 30, 35, GetBots []),
      (fetch_200, 40, 45, GetVotes ''1348997894''),
      (fetch_200, 50, 55, GetStats ''1348997894'')]
     (AriwaClient_topgg options_example) =
   (replicate 6 (Some (Inr (Err ''Top.gg token not provided''))),
    AriwaClient_topgg options_example, [])"
  using no_token_no_request [of options_example P_example
     "[(fetch_200, 0, 5, GetBot ''1348997894''),
      (fetch_200, 10, 15, PostStats ''1348997894'' (Obj [(''server_count'', Num 32)])),
      (fetch_200, 20, 25, HasVoted ''1348997894'' ''13489838383''),
      (fetch_200, 30, 35, GetBots []),
      (fetch_200, 40, 45, GetVotes ''1348997894''),
      (fetch_200, 50, 55, GetStats ''1348997894'')]"]
    AriwaClient_topgg_no_token [of options_example]
  by (simp add: options_example_def postStats_def getBots_def getBot_def getVotes_def
      hasVoted_def getStats_def TopGGAPI_fetchWithCache_no_token numeral_eq_Suc)

section \<open>Rate limiting\<close>



















section \<open>Cache round trip\<close>













section \<open>Invalidation after a mutating call\<close>



















end
